theory Spec2Isabelle
  imports Main "HOL-Library.Multiset" "HOL-Library.Sublist"
begin

section \<open>Strings of the host language\<close>



definition isWhitespace :: "char \<Rightarrow> bool" where
  "isWhitespace c =
     (c = CHR '' '' \<or> c = CHR 0x09 \<or> c = CHR 0x0A \<or> c = CHR 0x0B \<or> c = CHR 0x0C \<or> c = CHR 0x0D)"

definition trimStart :: "string \<Rightarrow> string" where
  "trimStart s = dropWhile isWhitespace s"

definition trimEnd :: "string \<Rightarrow> string" where
  "trimEnd s = rev (dropWhile isWhitespace (rev s))"

definition trim :: "string \<Rightarrow> string" where
  "trim s = trimStart (trimEnd s)"

definition lowerLetters :: string where
  "lowerLetters = ''abcdefghijklmnopqrstuvwxyz''"

definition upperLetters :: string where
  "upperLetters = ''ABCDEFGHIJKLMNOPQRSTUVWXYZ''"

definition toUpperChar :: "char \<Rightarrow> char" where
  "toUpperChar c = (case map_of (zip lowerLetters upperLetters) c of Some u \<Rightarrow> u | None \<Rightarrow> c)"

definition toLowerChar :: "char \<Rightarrow> char" where
  "toLowerChar c = (case map_of (zip upperLetters lowerLetters) c of Some l \<Rightarrow> l | None \<Rightarrow> c)"

definition toUpperCase :: "string \<Rightarrow> string" where
  "toUpperCase s = map toUpperChar s"

definition toLowerCase :: "string \<Rightarrow> string" where
  "toLowerCase s = map toLowerChar s"

text \<open>\<open>startsWith s p\<close>: the string \<open>s\<close> begins with \<open>p\<close>.\<close>

fun startsWith :: "string \<Rightarrow> string \<Rightarrow> bool" where
  "startsWith s [] = True"
| "startsWith [] (p # ps) = False"
| "startsWith (c # cs) (p # ps) = (c = p \<and> startsWith cs ps)"

text \<open>\<open>includes_str s sub\<close> is \<^verbatim>\<open>s.includes(sub)\<close>: \<open>sub\<close> occurs in \<open>s\<close> as a substring.\<close>

fun includes_str :: "string \<Rightarrow> string \<Rightarrow> bool" where
  "includes_str [] sub = (sub = [])"
| "includes_str (c # cs) sub = (startsWith (c # cs) sub \<or> includes_str cs sub)"

text \<open>
  \<open>splitOn p s\<close> is \<^verbatim>\<open>s.split(re)\<close> for a regular expression that matches exactly the
  single characters satisfying \<open>p\<close>. The result always has at least one part.
\<close>

fun splitOn :: "(char \<Rightarrow> bool) \<Rightarrow> string \<Rightarrow> string list" where
  "splitOn p [] = [[]]"
| "splitOn p (c # cs) =
     (if p c then [] # splitOn p cs
      else (case splitOn p cs of
              [] \<Rightarrow> [[c]]
            | w # ws \<Rightarrow> (c # w) # ws))"

text \<open>\<open>x || d\<close> on strings: the empty string is the only falsy string.\<close>

definition orElse :: "string \<Rightarrow> string \<Rightarrow> string" where
  "orElse x d = (if x = [] then d else x)"

section \<open>Rows of the competition sheet\<close>

text \<open>
  \<^verbatim>\<open>COLUMN_MAPPINGS\<close>: the keys the code uses and the column headers they stand for. A row
  is the object \<^verbatim>\<open>loadData\<close> builds, from column header to cell text.
\<close>

datatype column =
    SPORT | SPORT_TEAMSG | DISCIPLINE | EVENT | EVENT_CUSTOM | EVENT_GENDER | STAGE
  | STAGE_TEMPLATE | HEAT | VENUE | DATE_SGP | TIME_START_SGP | TIME_END_SGP | ATHLETE_NAME
  | COUNTRY_SGP | TIMING_SGP | SCORE_SGP | SCORE_COMPETITOR | COMPETITOR_NAME
  | COMPETITOR_COUNTRY | WIN_DRAW_LOSE | POSITION | FINAL_POSITION | ADVANCED | MEDALS
  | REMARKS

fun COLUMN_MAPPINGS :: "column \<Rightarrow> string" where
  "COLUMN_MAPPINGS SPORT = ''SPORT''"
| "COLUMN_MAPPINGS SPORT_TEAMSG = ''SPORT (TEAMSG WEBSITE)''"
| "COLUMN_MAPPINGS DISCIPLINE = ''DISCIPLINE''"
| "COLUMN_MAPPINGS EVENT = ''EVENT''"
| "COLUMN_MAPPINGS EVENT_CUSTOM = ''CUSTOM EVENT NAME (TEAMSG WEBSITE)''"
| "COLUMN_MAPPINGS EVENT_GENDER = ''EVENT GENDER''"
| "COLUMN_MAPPINGS STAGE = ''STAGE / ROUND OF COMPETITION''"
| "COLUMN_MAPPINGS STAGE_TEMPLATE = ''STAGE / ROUND OF COMPETITION (TEMPLATE)''"
| "COLUMN_MAPPINGS HEAT = ''HEAT NUMBER''"
| "COLUMN_MAPPINGS VENUE = ''COMPETITION VENUE''"
| "COLUMN_MAPPINGS DATE_SGP = ''DATE''"
| "COLUMN_MAPPINGS TIME_START_SGP = ''TIME START (SGP) 24HR CLOCK''"
| "COLUMN_MAPPINGS TIME_END_SGP = ''TIME END (SGP) 24HR CLOCK''"
| "COLUMN_MAPPINGS ATHLETE_NAME = ''NAME OF ATHLETE (SGP)''"
| "COLUMN_MAPPINGS COUNTRY_SGP = ''COUNTRY NAME (SGP)''"
| "COLUMN_MAPPINGS TIMING_SGP = ''TIMING (SGP) hh:mm:ss.ms''"
| "COLUMN_MAPPINGS SCORE_SGP = ''SCORE/DISTANCE/HEIGHT (SGP)''"
| "COLUMN_MAPPINGS SCORE_COMPETITOR = ''SCORE (COMPETITOR)''"
| "COLUMN_MAPPINGS COMPETITOR_NAME = ''NAME OF ATHLETE (COMPETITOR)''"
| "COLUMN_MAPPINGS COMPETITOR_COUNTRY = ''COUNTRY NAME (COMPETITOR)''"
| "COLUMN_MAPPINGS WIN_DRAW_LOSE = ''H2H WIN/DRAW/LOSE''"
| "COLUMN_MAPPINGS POSITION = ''POSITION''"
| "COLUMN_MAPPINGS FINAL_POSITION = ''FINAL POSITION IN EVENT''"
| "COLUMN_MAPPINGS ADVANCED = ''ADVANCED''"
| "COLUMN_MAPPINGS MEDALS = ''MEDAL''"
| "COLUMN_MAPPINGS REMARKS = ''REMARKS''"

type_synonym row = "string \<rightharpoonup> string"

text \<open>\<^verbatim>\<open>(row[colName] || '').trim()\<close>: an absent column reads as the empty string.\<close>

definition getCol :: "row \<Rightarrow> column \<Rightarrow> string" where
  "getCol row key =
     (let colName = COLUMN_MAPPINGS key
      in trim (case row colName of None \<Rightarrow> [] | Some v \<Rightarrow> orElse v []))"


section \<open>RowFilter: filterHighlightRows\<close>

text \<open>The array literal \<^verbatim>\<open>['na', 'n/a', 'none', 'no medal', 'nil']\<close>.\<close>

definition nullMarkers :: "string list" where
  "nullMarkers = [''na'', ''n/a'', ''none'', ''no medal'', ''nil'']"











section \<open>RuleIndex: loadH2HSportsMapping and isH2HSport\<close>

text \<open>
  The rules table arrives as \<^verbatim>\<open>response.data.values\<close>, an array of rows of cell texts;
  trailing empty cells are absent, and \<^verbatim>\<open>row[idx] || ''\<close> reads them as empty.
\<close>

definition cell :: "string list \<Rightarrow> nat \<Rightarrow> string" where
  "cell row idx = (if idx < length row then orElse (row ! idx) [] else [])"

text \<open>\<^verbatim>\<open>findIndex\<close>: the first index whose element satisfies the test, \<open>None\<close> for -1.\<close>

fun findIndex :: "('a \<Rightarrow> bool) \<Rightarrow> 'a list \<Rightarrow> nat option" where
  "findIndex p [] = None"
| "findIndex p (x # xs) =
     (if p x then Some 0 else (case findIndex p xs of None \<Rightarrow> None | Some i \<Rightarrow> Some (Suc i)))"

definition headerIs :: "string \<Rightarrow> string \<Rightarrow> bool" where
  "headerIs title h = (h \<noteq> [] \<and> toUpperCase h = title)"

text \<open>The separator of \<^verbatim>\<open>split(/\n|,/)\<close>: a line feed or a comma.\<close>

definition isListSeparator :: "char \<Rightarrow> bool" where
  "isListSeparator c = (c = CHR 0x0A \<or> c = CHR '','')"

definition splitList :: "string \<Rightarrow> string list" where
  "splitList s =
     (if s \<noteq> [] then map (\<lambda>x. toUpperCase (trim x)) (splitOn isListSeparator s) else [])"

text \<open>
  One pass of \<^verbatim>\<open>for (let i = 1; i < rows.length; i++)\<close> over the data rows, with the set
  \<open>h2hCombinations\<close> as accumulator. \<open>disciplinesColIdx\<close> is \<open>None\<close> when the header has
  no DISCIPLINES column.
\<close>

definition addH2HRow ::
  "nat \<Rightarrow> nat option \<Rightarrow> nat \<Rightarrow> string list \<Rightarrow> string set \<Rightarrow> string set" where
  "addH2HRow sportsColIdx disciplinesColIdx h2hColIdx row h2hCombinations =
     (let h2h = toLowerCase (trim (cell row h2hColIdx))
      in if h2h = ''yes'' then
           (let sports = trim (cell row sportsColIdx);
                disciplines = (case disciplinesColIdx of
                                 Some d \<Rightarrow> trim (cell row d)
                               | None \<Rightarrow> []);
                sportList = splitList sports;
                disciplineList = splitList disciplines
            in if length sportList > 0 then
                 (if length disciplineList > 0 then
                    foldl (\<lambda>acc sport.
                             foldl (\<lambda>acc' discipline. insert (sport @ ''|'' @ discipline) acc')
                               acc disciplineList)
                      h2hCombinations sportList
                  else
                    foldl (\<lambda>acc sport. insert (sport @ ''|*'') acc) h2hCombinations sportList)
               else h2hCombinations)
         else h2hCombinations)"

definition buildH2HCombinations :: "string list list \<Rightarrow> string set" where
  "buildH2HCombinations rows =
     (if length rows < 2 then {}
      else
        (let headers = hd rows;
             sportsColIdx = findIndex (headerIs ''SPORTS'') headers;
             disciplinesColIdx = findIndex (headerIs ''DISCIPLINES'') headers;
             h2hColIdx = findIndex (headerIs ''H2H'') headers
         in (case (sportsColIdx, h2hColIdx) of
               (Some si, Some hi) \<Rightarrow>
                 foldl (\<lambda>acc row. addH2HRow si disciplinesColIdx hi row acc) {} (tl rows)
             | _ \<Rightarrow> {})))"

text \<open>
  \<open>loadH2HSportsMapping\<close> with the module variable \<open>h2hSportsCache\<close> passed in and
  returned. The fetch of the sheet is an argument: \<open>None\<close> when the request throws, the
  rows otherwise. A cache that is set is returned as it is.
\<close>

definition loadH2HSportsMapping ::
  "string set option \<Rightarrow> string list list option \<Rightarrow> string set \<times> string set option" where
  "loadH2HSportsMapping h2hSportsCache response =
     (case h2hSportsCache of
        Some cached \<Rightarrow> (cached, h2hSportsCache)
      | None \<Rightarrow>
          (let h2hCombinations = (case response of
                                    None \<Rightarrow> {}
                                  | Some rows \<Rightarrow> buildH2HCombinations rows)
           in (h2hCombinations, Some h2hCombinations)))"

text \<open>
  \<open>isH2HSport\<close>; the mapping is \<open>None\<close> for \<^verbatim>\<open>null\<close>. The keys are the strings
  \<^verbatim>\<open>`${sport}|${discipline}`\<close>.
\<close>

definition isH2HSport :: "string \<Rightarrow> string \<Rightarrow> string set option \<Rightarrow> bool" where
  "isH2HSport sport discipline h2hMapping =
     (case h2hMapping of
        None \<Rightarrow> False
      | Some m \<Rightarrow>
          if m = {} then False
          else
            (let sportUpper = toUpperCase (trim (orElse sport []));
                 disciplineUpper = toUpperCase (trim (orElse discipline []))
             in if disciplineUpper \<noteq> [] \<and> (sportUpper @ ''|'' @ disciplineUpper) \<in> m then True
                else if (sportUpper @ ''|*'') \<in> m then True
                else if disciplineUpper = [] \<and> (sportUpper @ ''|'') \<in> m then True
                else False))"

text \<open>
  The lookup precedence in the words of the specification: the exact pair, then the
  wildcard, then the empty discipline, then individual.
\<close>

definition classifyByPrecedence :: "string \<Rightarrow> string \<Rightarrow> string set \<Rightarrow> bool" where
  "classifyByPrecedence sport discipline m =
     (let s = toUpperCase (trim sport); d = toUpperCase (trim discipline)
      in if (s @ ''|'' @ d) \<in> m then True
         else if (s @ ''|*'') \<in> m then True
         else if d = [] \<and> (s @ ''|'') \<in> m then True
         else False)"

section \<open>RecordNormalizer: formatTiming\<close>

text \<open>
  \<^verbatim>\<open>parseInt(s, 10)\<close>: leading white space is skipped, a sign is read, and the longest
  prefix of decimal digits is the value; \<open>None\<close> stands for \<^verbatim>\<open>NaN\<close> (no digit). The
  value and its rendering by \<^verbatim>\<open>toString()\<close> are exact integers here, as they are in the
  host for every magnitude below \<open>2 ^ 53\<close>; larger values are outside this embedding.
\<close>

definition digitChars :: string where
  "digitChars = ''0123456789''"

definition isDigit :: "char \<Rightarrow> bool" where
  "isDigit c = (c \<in> set digitChars)"

definition digitValue :: "char \<Rightarrow> nat" where
  "digitValue c = (case findIndex (\<lambda>d. d = c) digitChars of Some i \<Rightarrow> i | None \<Rightarrow> 0)"

definition digitsToNat :: "string \<Rightarrow> nat" where
  "digitsToNat ds = foldl (\<lambda>acc c. 10 * acc + digitValue c) 0 ds"

definition parseInt10 :: "string \<Rightarrow> int option" where
  "parseInt10 s =
     (let t = trimStart s;
          negative = (t \<noteq> [] \<and> hd t = CHR ''-'');
          u = (if t \<noteq> [] \<and> (hd t = CHR ''-'' \<or> hd t = CHR ''+'') then tl t else t);
          z = takeWhile isDigit u
      in if z = [] then None
         else Some (if negative then - int (digitsToNat z) else int (digitsToNat z)))"

text \<open>\<^verbatim>\<open>x || 0\<close> on a number: \<^verbatim>\<open>NaN\<close> and zero give zero.\<close>

definition orZero :: "int option \<Rightarrow> int" where
  "orZero x = (case x of None \<Rightarrow> 0 | Some n \<Rightarrow> n)"

fun natToString :: "nat \<Rightarrow> string" where
  "natToString n =
     (if n < 10 then [digitChars ! n]
      else natToString (n div 10) @ [digitChars ! (n mod 10)])"

declare natToString.simps [simp del]

definition numberToString :: "int \<Rightarrow> string" where
  "numberToString i = (if i < 0 then CHR ''-'' # natToString (nat (- i)) else natToString (nat i))"

definition isColon :: "char \<Rightarrow> bool" where
  "isColon c = (c = CHR '':'')"

definition formatTiming :: "string \<Rightarrow> string" where
  "formatTiming timingStr =
     (if timingStr = [] then []
      else
        (let result = trim timingStr;
             parts = splitOn isColon result
         in if length parts = 3 then
              (let hours = orZero (parseInt10 (parts ! 0));
                   minutes = orZero (parseInt10 (parts ! 1));
                   seconds = parts ! 2
               in if hours = 0 \<and> minutes = 0 then seconds
                  else if hours = 0 then
                    (let minStr = numberToString minutes
                     in minStr @ '':'' @ seconds)
                  else
                    (let hourStr = numberToString hours;
                         minStr = numberToString minutes
                     in hourStr @ '':'' @ minStr @ '':'' @ seconds))
            else if length parts = 2 then
              (let minutes = orZero (parseInt10 (parts ! 0));
                   seconds = parts ! 1
               in if minutes = 0 then seconds
                  else
                    (let minStr = numberToString minutes
                     in minStr @ '':'' @ seconds))
            else result))"

text \<open>
  The normalisation in the words of the specification, to be compared with
  \<open>formatTiming\<close>: leading units that are zero are dropped, and the segments that remain
  are put out as they came in.
\<close>

definition isZeroUnit :: "string \<Rightarrow> bool" where
  "isZeroUnit seg = (orZero (parseInt10 seg) = 0)"

definition stripLeadingZeroUnits :: "string \<Rightarrow> string" where
  "stripLeadingZeroUnits timingStr =
     (case splitOn isColon (trim timingStr) of
        [h, m, s] \<Rightarrow>
          if isZeroUnit h then (if isZeroUnit m then s else m @ '':'' @ s)
          else h @ '':'' @ m @ '':'' @ s
      | [m, s] \<Rightarrow> if isZeroUnit m then s else m @ '':'' @ s
      | _ \<Rightarrow> trim timingStr)"

section \<open>RecordNormalizer: normalizeDate\<close>

text \<open>
  A \<^verbatim>\<open>Date\<close> object, read through \<^verbatim>\<open>getFullYear\<close>, \<^verbatim>\<open>getMonth\<close> (0 to 11) and
  \<^verbatim>\<open>getDate\<close>; \<open>InvalidDate\<close> is the object whose time value is \<^verbatim>\<open>NaN\<close>. Dates are
  built and read in the local time of the host, which is taken to give every local
  calendar day its own midnight, so that only calendar days matter.
\<close>

datatype jsDate = InvalidDate | LocalDate int int int

text \<open>
  The day number of a civil date (month 1 to 12) counted from 1 January 1970, and the
  civil date (with the month as index 0 to 11) of a day number, in the proleptic
  Gregorian calendar of the host.
\<close>

definition daysFromCivil :: "int \<Rightarrow> int \<Rightarrow> int \<Rightarrow> int" where
  "daysFromCivil y m d =
     (let y' = (if m \<le> 2 then y - 1 else y);
          era = y' div 400;
          yoe = y' - era * 400;
          doy = (153 * (if m > 2 then m - 3 else m + 9) + 2) div 5 + d - 1;
          doe = yoe * 365 + yoe div 4 - yoe div 100 + doy
      in era * 146097 + doe - 719468)"

definition civilFromDays :: "int \<Rightarrow> int \<times> int \<times> int" where
  "civilFromDays z =
     (let z' = z + 719468;
          era = z' div 146097;
          doe = z' - era * 146097;
          yoe = (doe - doe div 1460 + doe div 36524 - doe div 146096) div 365;
          doy = doe - (365 * yoe + yoe div 4 - yoe div 100);
          mp = (5 * doy + 2) div 153;
          d = doy - (153 * mp + 2) div 5 + 1;
          m = (if mp < 10 then mp + 3 else mp - 9);
          y = yoe + era * 400 + (if m \<le> 2 then 1 else 0)
      in (y, m - 1, d))"

text \<open>
  \<^verbatim>\<open>new Date(year, monthIndex, day)\<close> on numbers, \<open>None\<close> being \<^verbatim>\<open>NaN\<close>: a year from 0 to
  99 counts from 1900, months and days beyond their range carry over, and a date more
  than 100 000 000 days from 1 January 1970 is invalid (whether the last day of that
  range is valid rests on the time zone of the host; it is taken as valid).
\<close>

definition newDate :: "int option \<Rightarrow> int option \<Rightarrow> int option \<Rightarrow> jsDate" where
  "newDate year monthIndex day =
     (case (year, monthIndex, day) of
        (Some y, Some m, Some d) \<Rightarrow>
          (let yr = (if 0 \<le> y \<and> y \<le> 99 then 1900 + y else y);
               ym = yr + m div 12;
               mn = m mod 12;
               dayNumber = daysFromCivil ym (mn + 1) 1 + d - 1
           in if \<bar>dayNumber\<bar> > 100000000 then InvalidDate
              else (case civilFromDays dayNumber of (cy, cm, cd) \<Rightarrow> LocalDate cy cm cd))
      | _ \<Rightarrow> InvalidDate)"

text \<open>
  The coercion of a string to a number, as the subtraction \<^verbatim>\<open>parts[0] - 1\<close> and the
  \<^verbatim>\<open>Date\<close> constructor apply it. The empty string is zero and a plain decimal integer
  is its value. \<open>NotANumber\<close> is returned only for a string with a character that no
  numeric literal contains; other literals (fractions, exponents, radix prefixes,
  \<^verbatim>\<open>Infinity\<close>) are floating-point values and are \<open>OtherLiteral\<close>, outside this embedding.
\<close>

datatype jsNumber = NotANumber | Num int | OtherLiteral

definition literalChars :: string where
  "literalChars = ''0123456789.+-eExXoObBaAcCdDfFInity''"

definition toNumber :: "string \<Rightarrow> jsNumber" where
  "toNumber s =
     (let t = trim s;
          negative = (t \<noteq> [] \<and> hd t = CHR ''-'');
          u = (if t \<noteq> [] \<and> (hd t = CHR ''-'' \<or> hd t = CHR ''+'') then tl t else t)
      in if t = [] then Num 0
         else if u \<noteq> [] \<and> (\<forall>c \<in> set u. isDigit c)
           then Num (if negative then - int (digitsToNat u) else int (digitsToNat u))
         else if \<forall>c \<in> set t. c \<in> set literalChars then OtherLiteral
         else NotANumber)"

text \<open>The test \<^verbatim>\<open>/^\d{4}-\d{2}-\d{2}$/\<close>.\<close>

definition isIsoDate :: "string \<Rightarrow> bool" where
  "isIsoDate s =
     (length s = 10
      \<and> (\<forall>i \<in> set [0, 1, 2, 3, 5, 6, 8, 9]. isDigit (s ! i))
      \<and> s ! 4 = CHR ''-'' \<and> s ! 7 = CHR ''-'')"

text \<open>The separator of \<^verbatim>\<open>split(/[\/\-]/)\<close>: a slash or a dash.\<close>

definition isDateSeparator :: "char \<Rightarrow> bool" where
  "isDateSeparator c = (c = CHR ''/'' \<or> c = CHR ''-'')"

text \<open>\<^verbatim>\<open>String(n).padStart(2, '0')\<close>.\<close>

definition padStart2 :: "string \<Rightarrow> string" where
  "padStart2 s = (if length s < 2 then replicate (2 - length s) CHR ''0'' @ s else s)"

text \<open>The end of \<open>normalizeDate\<close>: the empty string for an invalid date, else the rendering.\<close>

definition renderDate :: "jsDate \<Rightarrow> string" where
  "renderDate dateObj =
     (case dateObj of
        InvalidDate \<Rightarrow> []
      | LocalDate year monthIndex day \<Rightarrow>
          numberToString year @ ''-'' @ padStart2 (numberToString (monthIndex + 1))
            @ ''-'' @ padStart2 (numberToString day))"

text \<open>
  The argument of \<open>normalizeDate\<close>: a string, a \<^verbatim>\<open>Date\<close> object, or any other value. The
  result is the string returned, or \<open>HostParsed\<close> where the answer is that of the date
  parser of the host (\<^verbatim>\<open>new Date(dateInput)\<close> on a string that has not three parts) or
  rests on a number literal outside this embedding. No path throws.
\<close>

datatype dateInput = DateString string | DateObject jsDate | OtherValue

datatype dateOutcome = Returned string | HostParsed

definition normalizeDate :: "dateInput \<Rightarrow> dateOutcome" where
  "normalizeDate dateInput =
     (case dateInput of
        OtherValue \<Rightarrow> Returned []
      | DateObject dateObj \<Rightarrow> Returned (renderDate dateObj)
      | DateString s \<Rightarrow>
          if s = [] then Returned []
          else if isIsoDate s then Returned s
          else
            (let parts = splitOn isDateSeparator s
             in if length parts = 3 then
                  (let day = parseInt10 (parts ! 0);
                       month = parseInt10 (parts ! 1);
                       year = parseInt10 (parts ! 2)
                   in if (case year of Some y \<Rightarrow> y > 2000 | None \<Rightarrow> False) then
                        (if length (parts ! 0) = 4
                         then Returned (renderDate (newDate year (map_option (\<lambda>m. m - 1) month) day))
                         else Returned (renderDate (newDate year (map_option (\<lambda>m. m - 1) month) day)))
                      else
                        (case (toNumber (parts ! 2), toNumber (parts ! 0), toNumber (parts ! 1)) of
                           (Num y, Num m, Num d) \<Rightarrow>
                             Returned (renderDate (newDate (Some y) (Some (m - 1)) (Some d)))
                         | (y, m, d) \<Rightarrow>
                             if y = NotANumber \<or> m = NotANumber \<or> d = NotANumber
                             then Returned []
                             else HostParsed))
                else HostParsed))"

section \<open>RecordNormalizer: formatHighlightData\<close>

text \<open>
  The highlight object. A field that is \<^verbatim>\<open>undefined\<close> reads as the empty string in every
  use the code makes of it, so each field is a string. \<open>type\<close> is \<^verbatim>\<open>'h2h'\<close> or
  \<^verbatim>\<open>'non-h2h'\<close>.
\<close>

record highlight =
  sport :: string
  sportTeamsg :: string
  discipline :: string
  event :: string
  eventCustom :: string
  eventGender :: string
  stage :: string
  heat :: string
  venue :: string
  dateSgp :: string
  athleteName :: string
  countrySgp :: string
  timingSgp :: string
  scoreSgp :: string
  scoreCompetitor :: string
  competitorName :: string
  competitorCountry :: string
  winDrawLose :: string
  position :: string
  finalPosition :: string
  advanced :: string
  medals :: string
  remarks :: string
  type :: string

definition formatHighlightData :: "row \<Rightarrow> string set option \<Rightarrow> highlight" where
  "formatHighlightData row h2hMapping =
     (let sport' = getCol row SPORT;
          sportTeamsg' = orElse (getCol row SPORT_TEAMSG) sport';
          discipline' = getCol row DISCIPLINE;
          isH2H = (case h2hMapping of
                     None \<Rightarrow> False
                   | Some m \<Rightarrow> isH2HSport sport' discipline' h2hMapping);
          competitorName' = getCol row COMPETITOR_NAME;
          competitorCountry' = getCol row COMPETITOR_COUNTRY
      in \<lparr> sport = sport',
           sportTeamsg = sportTeamsg',
           discipline = discipline',
           event = getCol row EVENT,
           eventCustom = getCol row EVENT_CUSTOM,
           eventGender = getCol row EVENT_GENDER,
           stage = getCol row STAGE,
           heat = getCol row HEAT,
           venue = getCol row VENUE,
           dateSgp = getCol row DATE_SGP,
           athleteName = getCol row ATHLETE_NAME,
           countrySgp = orElse (getCol row COUNTRY_SGP) ''SGP'',
           timingSgp = formatTiming (getCol row TIMING_SGP),
           scoreSgp = getCol row SCORE_SGP,
           scoreCompetitor = getCol row SCORE_COMPETITOR,
           competitorName = competitorName',
           competitorCountry = competitorCountry',
           winDrawLose = getCol row WIN_DRAW_LOSE,
           position = getCol row POSITION,
           finalPosition = getCol row FINAL_POSITION,
           advanced = getCol row ADVANCED,
           medals = getCol row MEDALS,
           remarks = getCol row REMARKS,
           type = (if isH2H then ''h2h'' else ''non-h2h'') \<rparr>)"

section \<open>AssetResolver: resolveFlag\<close>

text \<open>
  The object literal \<open>flagMap\<close> in the order of its entries, which is the order
  \<^verbatim>\<open>Object.entries\<close> walks; an entry is (key, (code, ext)).
\<close>

definition flagMap :: "(string \<times> string \<times> string) list" where
  "flagMap =
     [(''SGP'', ''SIN'', ''png''), (''SINGAPORE'', ''SIN'', ''png''),
      (''MAS'', ''MAS'', ''png''), (''MALAYSIA'', ''MAS'', ''png''),
      (''THA'', ''THA'', ''png''), (''THAILAND'', ''THA'', ''png''),
      (''PHI'', ''PHI'', ''png''), (''PHILIPPINES'', ''PHI'', ''png''),
      (''VIE'', ''VIE'', ''png''), (''VIETNAM'', ''VIE'', ''png''),
      (''INA'', ''INA'', ''png''), (''INDONESIA'', ''INA'', ''png''),
      (''MYA'', ''MYA'', ''png''), (''MYANMAR'', ''MYA'', ''png''),
      (''CAM'', ''CAM'', ''png''), (''CAMBODIA'', ''CAM'', ''png''),
      (''LAO'', ''LAO'', ''png''), (''LAOS'', ''LAO'', ''png''),
      (''BRU'', ''BRU'', ''jpg''), (''BRUNEI'', ''BRU'', ''jpg''),
      (''TLS'', ''TLS'', ''png''), (''TIMOR-LESTE'', ''TLS'', ''png'')]"

text \<open>\<open>resolveFlag\<close> returns the pair (icon, image) of the object it builds.\<close>

definition resolveFlag :: "string \<Rightarrow> string \<times> string" where
  "resolveFlag countryValue =
     (if countryValue = [] then ([], [])
      else
        (let country = toUpperCase (trim countryValue)
         in if country = [] then ([], [])
            else
              (let flagInfo =
                     (case map_of flagMap country of
                        Some info \<Rightarrow> Some info
                      | None \<Rightarrow>
                          map_option snd
                            (find (\<lambda>(key, info). includes_str country key \<or> includes_str key country)
                               flagMap))
               in (case flagInfo of
                     Some (code, ext) \<Rightarrow> ([], ''flags/'' @ code @ ''.'' @ ext)
                   | None \<Rightarrow> ([], [])))))"

section \<open>CardBuilder: buildCardFromHighlight\<close>

text \<open>
  The medal glyphs, as the UTF-8 bytes of the three characters of the source; no function
  looks inside them.
\<close>

definition goldIcon :: string where
  "goldIcon = [CHR 0xF0, CHR 0x9F, CHR 0xA5, CHR 0x87]"

definition silverIcon :: string where
  "silverIcon = [CHR 0xF0, CHR 0x9F, CHR 0xA5, CHR 0x88]"

definition bronzeIcon :: string where
  "bronzeIcon = [CHR 0xF0, CHR 0x9F, CHR 0xA5, CHR 0x89]"

text \<open>\<open>normalizeMedal\<close> returns the pair (label, icon) of the object it builds.\<close>

definition normalizeMedal :: "string \<Rightarrow> string \<times> string" where
  "normalizeMedal medalValue =
     (if medalValue = [] then ([], [])
      else
        (let medalText = toLowerCase (trim medalValue)
         in if medalText = [] \<or> medalText \<in> set nullMarkers then ([], [])
            else if includes_str medalText ''gold'' then (trim medalValue, goldIcon)
            else if includes_str medalText ''silver'' then (trim medalValue, silverIcon)
            else if includes_str medalText ''bronze'' then (trim medalValue, bronzeIcon)
            else ([], [])))"

text \<open>\<^verbatim>\<open>parts.join(sep)\<close>.\<close>

fun joinWith :: "string \<Rightarrow> string list \<Rightarrow> string" where
  "joinWith sep [] = []"
| "joinWith sep [p] = p"
| "joinWith sep (p # q # ps) = p @ sep @ joinWith sep (q # ps)"

definition generateResultSummary :: "highlight \<Rightarrow> string" where
  "generateResultSummary highlight =
     (let parts0 =
            (if type highlight = ''h2h'' then
               (if scoreSgp highlight \<noteq> [] \<and> scoreCompetitor highlight \<noteq> []
                then [scoreSgp highlight @ ''-'' @ scoreCompetitor highlight]
                else if scoreSgp highlight \<noteq> [] then [scoreSgp highlight]
                else [])
             else
               (if timingSgp highlight \<noteq> [] then [''Time: '' @ timingSgp highlight]
                else if scoreSgp highlight \<noteq> [] then [''Score: '' @ scoreSgp highlight]
                else []));
          parts = (if medals highlight \<noteq> [] then parts0 @ [medals highlight] else parts0)
      in orElse (joinWith '' | '' parts) ''Result information'')"

record competitor =
  flagIcon :: string
  flagImage :: string
  name :: string
  country :: string
  score :: string
  isPrimary :: bool

text \<open>
  The card object. Its field \<^verbatim>\<open>sport\<close> is \<open>sport_card\<close> here, the name \<open>sport\<close> being
  the field of the highlight.
\<close>

record card =
  index :: nat
  sport_card :: string
  sportIconUrl :: string
  medalLabel :: string
  medalIcon :: string
  athletes :: string
  eventDetails :: string
  resultSummary :: string
  resultBadge :: string
  competitors :: "competitor list"

text \<open>
  \<open>buildCardFromHighlight\<close>. \<open>getSportIconUrl\<close> reads the icon table and the file system
  of the host and is passed in as a function; the card only stores what it returns.
\<close>

definition buildCardFromHighlight :: "(string \<Rightarrow> string) \<Rightarrow> highlight \<Rightarrow> nat \<Rightarrow> card" where
  "buildCardFromHighlight getSportIconUrl highlight idx =
     (let sport' = trim (orElse (sport highlight) ''Sport Name'');
          sportTeamsg' = trim (orElse (sportTeamsg highlight) sport');
          eventCustom' = trim (orElse (eventCustom highlight) (orElse (event highlight) []));
          stage' = trim (orElse (stage highlight) []);
          eventDetails' =
            (if eventCustom' \<noteq> [] \<and> stage' \<noteq> [] then eventCustom' @ '' - '' @ stage'
             else orElse eventCustom' (orElse stage' ''Event Details''));
          scoreSgp' = trim (orElse (scoreSgp highlight) []);
          scoreCompetitor' = trim (orElse (scoreCompetitor highlight) []);
          timing = trim (orElse (timingSgp highlight) []);
          isH2H = (type highlight = ''h2h'');
          (primaryScore, opponentScore) =
            (if isH2H then
               (if scoreSgp' \<noteq> [] \<and> scoreCompetitor' \<noteq> [] then (scoreSgp', scoreCompetitor')
                else if scoreSgp' \<noteq> [] then (scoreSgp', orElse scoreCompetitor' [])
                else if scoreCompetitor' \<noteq> [] then (orElse scoreSgp' [], scoreCompetitor')
                else ([], []))
             else
               (if scoreSgp' \<noteq> [] then (scoreSgp', [])
                else if timing \<noteq> [] then (timing, [])
                else ([], [])));
          (medalLabel', medalIcon') = normalizeMedal (medals highlight);
          primaryName = trim (orElse (athleteName highlight) ''Athlete Name'');
          primaryCountry = trim (orElse (countrySgp highlight) ''SGP'');
          primaryFlag = resolveFlag primaryCountry;
          competitors0 =
            [\<lparr> flagIcon = fst primaryFlag, flagImage = snd primaryFlag, name = primaryName,
                country = primaryCountry, score = primaryScore, isPrimary = True \<rparr>];
          competitors' =
            (if isH2H then
               (let competitorName' = trim (orElse (competitorName highlight) []);
                    competitorCountry' = trim (orElse (competitorCountry highlight) [])
                in if competitorName' \<noteq> [] \<or> competitorCountry' \<noteq> [] then
                     (let opponentFlag = resolveFlag competitorCountry'
                      in competitors0 @
                         [\<lparr> flagIcon = fst opponentFlag, flagImage = snd opponentFlag,
                             name = orElse competitorName' ''Opponent'',
                             country = competitorCountry', score = opponentScore,
                             isPrimary = False \<rparr>])
                   else competitors0)
             else competitors0);
          resultBadge' = orElse (trim (orElse (winDrawLose highlight) [])) medalLabel'
      in \<lparr> index = idx,
           sport_card = sportTeamsg',
           sportIconUrl = getSportIconUrl sport',
           medalLabel = medalLabel',
           medalIcon = medalIcon',
           athletes = primaryName,
           eventDetails = eventDetails',
           resultSummary = generateResultSummary highlight,
           resultBadge =
             (if resultBadge' \<noteq> []
                 \<and> toLowerCase resultBadge' \<notin> set [''na'', ''n/a'', ''none'']
              then resultBadge' else []),
           competitors = competitors' \<rparr>)"

text \<open>A field that is not empty and is empty once trimmed.\<close>

definition whitespaceOnly :: "string \<Rightarrow> bool" where
  "whitespaceOnly s = (s \<noteq> [] \<and> trim s = [])"

section \<open>Paginator: chunkCards\<close>

text \<open>
  \<^verbatim>\<open>cards.slice(i, j)\<close> for \<open>0 \<le> i \<le> j\<close>; the end is clipped to the length of the array.
\<close>

definition slice :: "'a list \<Rightarrow> nat \<Rightarrow> nat \<Rightarrow> 'a list" where
  "slice xs i j = take (j - i) (drop i xs)"

text \<open>
  The \<^verbatim>\<open>for (let i = 0; i < cards.length; i += chunkSize)\<close> loop, with the loop variable
  and the array of slides built so far as arguments. The loop is entered only with a
  positive chunk size; the guard \<open>0 < chunkSize\<close> records this.
\<close>

function chunkLoop :: "'a list \<Rightarrow> nat \<Rightarrow> nat \<Rightarrow> 'a list list \<Rightarrow> 'a list list" where
  "chunkLoop cards chunkSize i slides =
     (if 0 < chunkSize \<and> i < length cards
      then chunkLoop cards chunkSize (i + chunkSize) (slides @ [slice cards i (i + chunkSize)])
      else slides)"
  by pat_completeness auto
termination
  by (relation "measure (\<lambda>(cards, chunkSize, i, slides). length cards - i)") auto

declare chunkLoop.simps [simp del]

definition chunkCards :: "'a list \<Rightarrow> int \<Rightarrow> 'a list list" where
  "chunkCards cards chunkSize =
     (if chunkSize \<le> 0 then [cards]
      else (let slides = chunkLoop cards (nat chunkSize) 0 []
            in if length slides > 0 then slides else [[]]))"

section \<open>Global ordering: generateHTML\<close>







text \<open>\<^verbatim>\<open>cards.forEach((card, idx) => { card.index = idx + 1; })\<close>.\<close>

fun renumberFrom :: "nat \<Rightarrow> card list \<Rightarrow> card list" where
  "renumberFrom idx [] = []"
| "renumberFrom idx (c # cs) = c\<lparr>index := idx + 1\<rparr> # renumberFrom (idx + 1) cs"







section \<open>Sample records\<close>

text \<open>
  Two records as \<open>formatHighlightData\<close> builds them, for the concrete instances below: a
  head-to-head final with an opponent and no opponent score, and a timed final.
\<close>

definition badmintonFinal :: highlight where
  "badmintonFinal =
     \<lparr> sport = ''Badminton'', sportTeamsg = ''Badminton'', discipline = ''Singles'',
       event = ''Singles'', eventCustom = '''', eventGender = '''', stage = ''Final'',
       heat = '''', venue = '''', dateSgp = '''', athleteName = ''Loh'',
       countrySgp = ''SGP'', timingSgp = '''', scoreSgp = ''2'', scoreCompetitor = '''',
       competitorName = ''Lee'', competitorCountry = ''MAS'', winDrawLose = ''Win'',
       position = '''', finalPosition = '''', advanced = '''', medals = ''Gold'',
       remarks = '''', type = ''h2h'' \<rparr>"

definition swimmingFinal :: highlight where
  "swimmingFinal =
     \<lparr> sport = ''Swimming'', sportTeamsg = ''Swimming'', discipline = '''',
       event = ''100m Freestyle'', eventCustom = '''', eventGender = '''',
       stage = ''Final'', heat = '''', venue = '''', dateSgp = '''',
       athleteName = ''Tan'', countrySgp = ''SGP'', timingSgp = ''48.10'',
       scoreSgp = '''', scoreCompetitor = '''', competitorName = '''',
       competitorCountry = '''', winDrawLose = '''', position = '''',
       finalPosition = '''', advanced = '''', medals = ''Gold'', remarks = '''',
       type = ''non-h2h'' \<rparr>"

text \<open>
  The head-to-head final with the sport, the athlete name, the country and the opponent
  name left empty, as \<open>buildCardFromHighlight\<close> may be handed it directly.
\<close>

definition unnamedFinal :: highlight where
  "unnamedFinal =
     badmintonFinal\<lparr>sport := [], sportTeamsg := [], athleteName := [], countrySgp := [],
       competitorName := []\<rparr>"


section \<open>Properties\<close>

subsection \<open>Trimming\<close>

lemma orElse_empty [simp]: "orElse x [] = x"
  by (simp add: orElse_def)

lemma trimEnd_noop: "s = [] \<or> \<not> isWhitespace (last s) \<Longrightarrow> trimEnd s = s"
  by (cases s rule: rev_cases) (auto simp: trimEnd_def)

lemma trimStart_noop: "s = [] \<or> \<not> isWhitespace (hd s) \<Longrightarrow> trimStart s = s"
  by (cases s) (auto simp: trimStart_def)

lemma trimEnd_last: "trimEnd s = [] \<or> \<not> isWhitespace (last (trimEnd s))"
proof (cases "dropWhile isWhitespace (rev s)")
  case Nil
  then show ?thesis by (simp add: trimEnd_def)
next
  case (Cons c cs)
  then have "\<not> isWhitespace c"
    by (metis hd_dropWhile list.sel(1) list.distinct(1))
  with Cons show ?thesis by (simp add: trimEnd_def)
qed

lemma last_dropWhile: "dropWhile P xs \<noteq> [] \<Longrightarrow> last (dropWhile P xs) = last xs"
  by (induction xs) (auto split: if_splits)

lemma trim_ends:
  "trim s = [] \<or> (\<not> isWhitespace (hd (trim s)) \<and> \<not> isWhitespace (last (trim s)))"
proof (cases "trim s = []")
  case True
  then show ?thesis by simp
next
  case False
  then have ne: "dropWhile isWhitespace (trimEnd s) \<noteq> []"
    by (simp add: trim_def trimStart_def)
  then have "trimEnd s \<noteq> []" by auto
  with trimEnd_last [of s] have l: "\<not> isWhitespace (last (trimEnd s))" by simp
  have "\<not> isWhitespace (hd (trim s))"
    using ne by (simp add: trim_def trimStart_def hd_dropWhile)
  moreover have "last (trim s) = last (trimEnd s)"
    using ne by (simp add: trim_def trimStart_def last_dropWhile)
  ultimately show ?thesis using l by simp
qed

lemma trim_noop:
  "s = [] \<or> (\<not> isWhitespace (hd s) \<and> \<not> isWhitespace (last s)) \<Longrightarrow> trim s = s"
  using trimEnd_noop [of s] trimStart_noop [of s] by (auto simp: trim_def)

lemma trim_idem [simp]: "trim (trim s) = trim s"
  using trim_ends [of s] trim_noop [of "trim s"] by blast

subsection \<open>The row filter is the eligibility rule\<close>













subsection \<open>Keys added by the rules table\<close>

lemma foldl_insert_mono: "acc \<subseteq> foldl (\<lambda>a x. insert (f x) a) acc xs"
  by (induction xs arbitrary: acc) (auto, blast)

lemma foldl_insert_mem: "x \<in> set xs \<Longrightarrow> f x \<in> foldl (\<lambda>a x. insert (f x) a) acc xs"
proof (induction xs arbitrary: acc)
  case Nil
  then show ?case by simp
next
  case (Cons y ys)
  show ?case
  proof (cases "x = y")
    case True
    then show ?thesis
      using foldl_insert_mono [of "insert (f y) acc" f ys] by auto
  next
    case False
    with Cons show ?thesis by simp
  qed
qed

lemma foldl_foldl_insert_mono:
  "acc \<subseteq> foldl (\<lambda>a s. foldl (\<lambda>a' d. insert (g s d) a') a ds) acc ss"
proof (induction ss arbitrary: acc)
  case Nil
  then show ?case by simp
next
  case (Cons s ss)
  have "acc \<subseteq> foldl (\<lambda>a' d. insert (g s d) a') acc ds"
    by (rule foldl_insert_mono)
  also have "\<dots> \<subseteq> foldl (\<lambda>a s. foldl (\<lambda>a' d. insert (g s d) a') a ds)
                    (foldl (\<lambda>a' d. insert (g s d) a') acc ds) ss"
    by (rule Cons.IH)
  finally show ?case by simp
qed

lemma addH2HRow_mono: "acc \<subseteq> addH2HRow si di hi row acc"
  using foldl_insert_mono [of acc "\<lambda>sport. sport @ ''|*''"]
    foldl_foldl_insert_mono [of acc "\<lambda>sport discipline. sport @ ''|'' @ discipline"]
  by (auto simp: addH2HRow_def Let_def)

lemma foldl_addH2HRow_mono:
  "acc \<subseteq> foldl (\<lambda>a row. addH2HRow si di hi row a) acc rows"
proof (induction rows arbitrary: acc)
  case Nil
  then show ?case by simp
next
  case (Cons r rs)
  have "acc \<subseteq> addH2HRow si di hi r acc" by (rule addH2HRow_mono)
  also have "\<dots> \<subseteq> foldl (\<lambda>a row. addH2HRow si di hi row a) (addH2HRow si di hi r acc) rs"
    by (rule Cons.IH)
  finally show ?case by simp
qed

lemma addH2HRow_wildcard:
  assumes "toLowerCase (trim (cell row hi)) = ''yes''"
    and "S \<in> set (splitList (trim (cell row si)))"
    and "(case di of Some d \<Rightarrow> trim (cell row d) | None \<Rightarrow> []) = []"
  shows "S @ ''|*'' \<in> addH2HRow si di hi row acc"
proof -
  have "length (splitList (trim (cell row si))) > 0"
    using assms(2) by (cases "splitList (trim (cell row si))") auto
  moreover have "splitList [] = []" by (simp add: splitList_def)
  ultimately show ?thesis
    using assms foldl_insert_mem [of S "splitList (trim (cell row si))" "\<lambda>sport. sport @ ''|*''" acc]
    by (simp add: addH2HRow_def Let_def)
qed

lemma foldl_addH2HRow_wildcard:
  assumes "row \<in> set rows"
    and "toLowerCase (trim (cell row hi)) = ''yes''"
    and "S \<in> set (splitList (trim (cell row si)))"
    and "(case di of Some d \<Rightarrow> trim (cell row d) | None \<Rightarrow> []) = []"
  shows "S @ ''|*'' \<in> foldl (\<lambda>a row. addH2HRow si di hi row a) acc rows"
  using assms(1)
proof (induction rows arbitrary: acc)
  case Nil
  then show ?case by simp
next
  case (Cons r rs)
  show ?case
  proof (cases "row = r")
    case True
    have "S @ ''|*'' \<in> addH2HRow si di hi r acc"
      using addH2HRow_wildcard [OF assms(2-4)] True by simp
    then show ?thesis
      using foldl_addH2HRow_mono [of "addH2HRow si di hi r acc" si di hi rs] by auto
  next
    case False
    with Cons show ?thesis by simp
  qed
qed

lemma build_wildcard:
  assumes "findIndex (headerIs ''SPORTS'') headers = Some si"
    and "findIndex (headerIs ''H2H'') headers = Some hi"
    and "row \<in> set dataRows"
    and "toLowerCase (trim (cell row hi)) = ''yes''"
    and "S \<in> set (splitList (trim (cell row si)))"
    and "(case findIndex (headerIs ''DISCIPLINES'') headers of
            Some d \<Rightarrow> trim (cell row d) | None \<Rightarrow> []) = []"
  shows "S @ ''|*'' \<in> buildH2HCombinations (headers # dataRows)"
proof -
  have "dataRows \<noteq> []"
    using assms(3) by auto
  then show ?thesis
    using assms(1,2) foldl_addH2HRow_wildcard [OF assms(3-6), of "{}"]
    by (simp add: buildH2HCombinations_def Let_def)
qed

lemma wildcard_h2h:
  "toUpperCase (trim sportName) @ ''|*'' \<in> m \<Longrightarrow> isH2HSport sportName disciplineName (Some m)"
  by (auto simp: isH2HSport_def Let_def)

subsection \<open>Splitting at separators\<close>

lemma splitOn_nonempty [simp]: "splitOn p s \<noteq> []"
  by (induction s) (auto split: list.splits)

lemma splitOn_no_sep: "\<forall>c \<in> set s. \<not> p c \<Longrightarrow> splitOn p s = [s]"
  by (induction s) auto

lemma splitOn_append:
  "\<forall>c \<in> set a. \<not> p c \<Longrightarrow> p x \<Longrightarrow> splitOn p (a @ x # b) = a # splitOn p b"
  by (induction a) auto

lemma splitOn_last_no_sep: "\<forall>c \<in> set (last (splitOn p s)). \<not> p c"
  by (induction s) (auto split: list.splits)

lemma splitOn_parts_no_sep: "w \<in> set (splitOn p s) \<Longrightarrow> \<forall>c \<in> set w. \<not> p c"
proof (induction s arbitrary: w)
  case Nil
  then show ?case by simp
next
  case (Cons a s)
  obtain v vs where sp: "splitOn p s = v # vs"
    by (cases "splitOn p s") auto
  have v: "\<forall>c \<in> set v. \<not> p c" and vs: "\<And>u. u \<in> set vs \<Longrightarrow> \<forall>c \<in> set u. \<not> p c"
    using Cons.IH sp by auto
  show ?case
  proof (cases "p a")
    case True
    with Cons.prems sp v vs show ?thesis by auto
  next
    case False
    with Cons.prems sp v vs show ?thesis by auto
  qed
qed

lemma trimEnd_append:
  "a \<noteq> [] \<Longrightarrow> \<not> isWhitespace (last a) \<Longrightarrow> trimEnd (a @ b) = a @ trimEnd b"
proof (induction b rule: rev_induct)
  case Nil
  then show ?case by (simp add: trimEnd_noop)
next
  case (snoc x xs)
  then show ?case
    by (cases "isWhitespace x") (auto simp: trimEnd_def)
qed

lemma formatTiming_zero_prefix:
  assumes "CHR '':'' \<notin> set s"
  shows "formatTiming (''00:00:'' @ s) = trimEnd s"
proof -
  have t: "trim (''00:00:'' @ s) = ''00:00:'' @ trimEnd s"
    using trimEnd_append [of "''00:00:''" s]
    by (simp add: trim_def trimStart_def isWhitespace_def)
  have "set (trimEnd s) \<subseteq> set s"
    by (auto simp: trimEnd_def dest: set_dropWhileD)
  with assms have n: "\<forall>c \<in> set (trimEnd s). \<not> isColon c"
    by (auto simp: isColon_def)
  have c: "isColon CHR '':''" "\<not> isColon CHR ''0''"
    by (simp_all add: isColon_def)
  have sp: "splitOn isColon (''00:00:'' @ trimEnd s) = [''00'', ''00'', trimEnd s]"
    using splitOn_no_sep [OF n] c by simp
  have z: "orZero (parseInt10 ''00'') = 0"
    by code_simp
  show ?thesis
    by (simp add: formatTiming_def t sp z del: append.simps)
qed

subsection \<open>Reading and rendering integers\<close>

lemma digit_cases: "k < 10 \<Longrightarrow> k \<in> {0, 1, 2, 3, 4, 5, 6, 7, 8, 9 :: nat}"
  by auto

lemma digitChars_nth:
  assumes "k < 10"
  shows "isDigit (digitChars ! k)" and "digitValue (digitChars ! k) = k"
    and "\<not> isWhitespace (digitChars ! k)" and "digitChars ! k \<noteq> CHR ''-''"
    and "digitChars ! k \<noteq> CHR ''+''" and "\<not> isColon (digitChars ! k)"
  using digit_cases [OF assms]
  by (auto simp: isDigit_def digitValue_def digitChars_def isWhitespace_def isColon_def)

lemma natToString_digits: "\<forall>c \<in> set (natToString n). isDigit c"
proof (induction n rule: natToString.induct)
  case (1 n)
  show ?case
  proof (cases "n < 10")
    case True
    then show ?thesis
      by (subst natToString.simps) (simp add: digitChars_nth)
  next
    case False
    with 1 show ?thesis
      by (subst natToString.simps) (simp add: digitChars_nth)
  qed
qed

lemma natToString_nonempty: "natToString n \<noteq> []"
  by (subst natToString.simps) simp

lemma digitsToNat_snoc: "digitsToNat (ds @ [c]) = 10 * digitsToNat ds + digitValue c"
  by (simp add: digitsToNat_def)

lemma digitsToNat_natToString: "digitsToNat (natToString n) = n"
proof (induction n rule: natToString.induct)
  case (1 n)
  show ?case
  proof (cases "n < 10")
    case True
    then show ?thesis
      by (subst natToString.simps) (simp add: digitsToNat_def digitChars_nth)
  next
    case False
    with 1 show ?thesis
      by (subst natToString.simps) (simp add: digitsToNat_snoc digitChars_nth)
  qed
qed

lemma isDigit_plain:
  "isDigit c \<Longrightarrow> \<not> isWhitespace c \<and> c \<noteq> CHR ''-'' \<and> c \<noteq> CHR ''+'' \<and> \<not> isColon c"
  by (auto simp: isDigit_def digitChars_def isWhitespace_def isColon_def)

lemma parseInt10_digits:
  assumes "ds \<noteq> []" and "\<forall>c \<in> set ds. isDigit c"
  shows "parseInt10 ds = Some (int (digitsToNat ds))"
    and "parseInt10 (CHR ''-'' # ds) = Some (- int (digitsToNat ds))"
proof -
  obtain d ds' where ds: "ds = d # ds'"
    using assms(1) by (cases ds) auto
  have d: "\<not> isWhitespace d" "d \<noteq> CHR ''-''" "d \<noteq> CHR ''+''"
    using assms(2) isDigit_plain [of d] by (auto simp: ds)
  have tw: "takeWhile isDigit ds = ds"
    using assms(2) by (simp add: takeWhile_eq_all_conv)
  have w: "\<not> isWhitespace CHR ''-''"
    by (simp add: isWhitespace_def)
  show "parseInt10 ds = Some (int (digitsToNat ds))"
    using d assms(1) tw [unfolded ds] by (simp add: parseInt10_def trimStart_def ds Let_def del: takeWhile.simps takeWhile_eq_all_conv)
  show "parseInt10 (CHR ''-'' # ds) = Some (- int (digitsToNat ds))"
    using w assms(1) by (simp add: parseInt10_def trimStart_def Let_def tw)
qed

lemma parseInt10_numberToString: "parseInt10 (numberToString n) = Some n"
  using parseInt10_digits [OF natToString_nonempty natToString_digits]
  by (simp add: numberToString_def digitsToNat_natToString)

lemma numberToString_no_colon: "\<forall>c \<in> set (numberToString n). \<not> isColon c"
  using natToString_digits isDigit_plain
  by (auto simp: numberToString_def isColon_def)

lemma splitOn_single: "splitOn p s = [w] \<Longrightarrow> w = s"
proof (induction s arbitrary: w)
  case Nil
  then show ?case by simp
next
  case (Cons a s)
  then show ?case
    by (cases "splitOn p s") (auto split: if_splits)
qed

lemma splitOn_rendered:
  "\<forall>c \<in> set rest. \<not> isColon c \<Longrightarrow>
     splitOn isColon (numberToString n @ '':'' @ rest) = [numberToString n, rest]"
  using splitOn_append [of "numberToString n" isColon "CHR '':''" rest]
    numberToString_no_colon [of n] splitOn_no_sep [of rest isColon]
  by (simp add: isColon_def)

subsection \<open>formatTiming by number of segments\<close>

lemma formatTiming_one:
  "splitOn isColon (trim t) = [s] \<Longrightarrow> formatTiming t = s"
  using splitOn_single [of isColon "trim t" s]
  by (auto simp: formatTiming_def Let_def trim_def trimStart_def trimEnd_def)

lemma parts_not_empty_input:
  "length (splitOn isColon (trim t)) \<noteq> 1 \<Longrightarrow> t \<noteq> []"
  by (auto simp: trim_def trimStart_def trimEnd_def)

lemma formatTiming_two:
  assumes "splitOn isColon (trim t) = [m, s]"
  shows "formatTiming t =
           (if isZeroUnit m then s else numberToString (orZero (parseInt10 m)) @ '':'' @ s)"
  using assms parts_not_empty_input [of t]
  by (simp add: formatTiming_def Let_def isZeroUnit_def)

lemma formatTiming_three_zero_hours:
  assumes "splitOn isColon (trim t) = [h, m, s]" and "isZeroUnit h"
  shows "formatTiming t =
           (if isZeroUnit m then s else numberToString (orZero (parseInt10 m)) @ '':'' @ s)"
  using assms parts_not_empty_input [of t]
  by (simp add: formatTiming_def Let_def isZeroUnit_def)

lemma formatTiming_three_hours:
  assumes "splitOn isColon (trim t) = [h, m, s]" and "\<not> isZeroUnit h"
  shows "formatTiming t =
           numberToString (orZero (parseInt10 h)) @ '':''
             @ numberToString (orZero (parseInt10 m)) @ '':'' @ s"
  using assms parts_not_empty_input [of t]
  by (simp add: formatTiming_def Let_def isZeroUnit_def)

lemma rendered_head:
  assumes "n \<noteq> 0"
  shows "\<not> isZeroUnit (hd (splitOn isColon (numberToString n @ '':'' @ rest)))"
proof -
  have "splitOn isColon (numberToString n @ CHR '':'' # rest) = numberToString n # splitOn isColon rest"
    using splitOn_append [of "numberToString n" isColon "CHR '':''" rest]
      numberToString_no_colon [of n]
    by (simp add: isColon_def)
  then show ?thesis
    using assms by (simp add: isZeroUnit_def parseInt10_numberToString orZero_def)
qed

lemma formatTiming_no_leading_zero:
  assumes "length (splitOn isColon (trim t)) \<le> 3"
    and "1 < length (splitOn isColon (formatTiming t))"
  shows "\<not> isZeroUnit (hd (splitOn isColon (formatTiming t)))"
proof -
  let ?parts = "splitOn isColon (trim t)"
  have ne: "?parts \<noteq> []" by simp
  have nc: "\<And>w. w \<in> set ?parts \<Longrightarrow> splitOn isColon w = [w]"
    using splitOn_parts_no_sep [of _ isColon "trim t"] splitOn_no_sep [of _ isColon] by blast
  consider (one) s where "?parts = [s]" | (two) m s where "?parts = [m, s]"
    | (three) h m s where "?parts = [h, m, s]"
  proof (cases ?parts)
    case Nil
    with ne show ?thesis by simp
  next
    case (Cons a as)
    note c1 = Cons
    show ?thesis
    proof (cases as)
      case Nil
      with c1 one show ?thesis by simp
    next
      case (Cons b bs)
      note c2 = Cons
      show ?thesis
      proof (cases bs)
        case Nil
        with c1 c2 two show ?thesis by simp
      next
        case (Cons c cs)
        with c1 c2 assms(1) have "cs = []" by simp
        with c1 c2 Cons three show ?thesis by simp
      qed
    qed
  qed
  then show ?thesis
  proof cases
    case one
    then have "formatTiming t = s" by (rule formatTiming_one)
    moreover have "splitOn isColon s = [s]" using nc [of s] one by simp
    ultimately show ?thesis using assms(2) by simp
  next
    case two
    have s: "splitOn isColon s = [s]" using nc [of s] two by simp
    show ?thesis
    proof (cases "isZeroUnit m")
      case True
      with formatTiming_two [OF two] s assms(2) show ?thesis by simp
    next
      case False
      then have "orZero (parseInt10 m) \<noteq> 0" by (simp add: isZeroUnit_def)
      from rendered_head [OF this, of s] formatTiming_two [OF two] False
      show ?thesis by simp
    qed
  next
    case three
    have s: "splitOn isColon s = [s]" using nc [of s] three by simp
    show ?thesis
    proof (cases "isZeroUnit h")
      case True
      note hz = True
      show ?thesis
      proof (cases "isZeroUnit m")
        case True
        with formatTiming_three_zero_hours [OF three hz] s assms(2) show ?thesis by simp
      next
        case False
        then have "orZero (parseInt10 m) \<noteq> 0" by (simp add: isZeroUnit_def)
        from rendered_head [OF this, of s] formatTiming_three_zero_hours [OF three hz] False
        show ?thesis by simp
      qed
    next
      case False
      then have "orZero (parseInt10 h) \<noteq> 0" by (simp add: isZeroUnit_def)
      from rendered_head [OF this, of "numberToString (orZero (parseInt10 m)) @ '':'' @ s"]
        formatTiming_three_hours [OF three False]
      show ?thesis by simp
    qed
  qed
qed

text \<open>After a non-zero hour the minute segment loses its leading zero as well.\<close>

lemma formatTiming_minutes_unpadded: "formatTiming ''01:05:10.00'' = ''1:5:10.00''"
  by code_simp

subsection \<open>The fields of a built card\<close>

lemma build_sport_card:
  "sport_card (buildCardFromHighlight g h idx) =
     trim (orElse (sportTeamsg h) (trim (orElse (sport h) ''Sport Name'')))"
  by (simp add: buildCardFromHighlight_def Let_def split_beta)

lemma build_sportIconUrl:
  "sportIconUrl (buildCardFromHighlight g h idx) = g (trim (orElse (sport h) ''Sport Name''))"
  by (simp add: buildCardFromHighlight_def Let_def split_beta)

lemma build_medalLabel:
  "medalLabel (buildCardFromHighlight g h idx) = fst (normalizeMedal (medals h))"
  by (simp add: buildCardFromHighlight_def Let_def split_beta)

lemma build_resultBadge:
  "resultBadge (buildCardFromHighlight g h idx) =
     (let b = orElse (trim (winDrawLose h)) (fst (normalizeMedal (medals h)))
      in if b \<noteq> [] \<and> toLowerCase b \<notin> set [''na'', ''n/a'', ''none''] then b else [])"
  by (simp add: buildCardFromHighlight_def Let_def split_beta)

lemma build_competitors_hd:
  "competitors (buildCardFromHighlight g h idx) \<noteq> []
   \<and> isPrimary (hd (competitors (buildCardFromHighlight g h idx)))
   \<and> name (hd (competitors (buildCardFromHighlight g h idx)))
       = trim (orElse (athleteName h) ''Athlete Name'')
   \<and> country (hd (competitors (buildCardFromHighlight g h idx)))
       = trim (orElse (countrySgp h) ''SGP'')"
  by (simp add: buildCardFromHighlight_def Let_def split_beta)

lemma build_competitors_tl:
  "tl (competitors (buildCardFromHighlight g h idx)) =
     (if type h = ''h2h'' \<and> (trim (competitorName h) \<noteq> [] \<or> trim (competitorCountry h) \<noteq> [])
      then [\<lparr> flagIcon = fst (resolveFlag (trim (competitorCountry h))),
              flagImage = snd (resolveFlag (trim (competitorCountry h))),
              name = orElse (trim (competitorName h)) ''Opponent'',
              country = trim (competitorCountry h),
              score = (if trim (scoreCompetitor h) \<noteq> [] then trim (scoreCompetitor h) else []),
              isPrimary = False \<rparr>]
      else [])"
  by (simp add: buildCardFromHighlight_def Let_def split_beta)


lemma normalizeMedal_label:
  "fst (normalizeMedal v) = [] \<or> toLowerCase (fst (normalizeMedal v)) \<notin> set nullMarkers"
  by (simp add: normalizeMedal_def Let_def)

lemma short_markers: "set [''na'', ''n/a'', ''none''] \<subseteq> set nullMarkers"
  by (simp add: nullMarkers_def)

lemma trim_placeholder:
  "trim ''Sport Name'' = ''Sport Name''" "trim ''Athlete Name'' = ''Athlete Name''"
  "trim ''SGP'' = ''SGP''"
  by code_simp+

lemma orElse_not_blank:
  "\<not> whitespaceOnly x \<Longrightarrow> trim d \<noteq> [] \<Longrightarrow> trim (orElse x d) \<noteq> []"
  by (auto simp: whitespaceOnly_def orElse_def)

text \<open>Every record \<open>formatHighlightData\<close> builds has trimmed fields.\<close>

lemma formatHighlightData_not_whitespaceOnly:
  "\<not> whitespaceOnly (sport (formatHighlightData row m))
   \<and> \<not> whitespaceOnly (sportTeamsg (formatHighlightData row m))
   \<and> \<not> whitespaceOnly (athleteName (formatHighlightData row m))
   \<and> \<not> whitespaceOnly (countrySgp (formatHighlightData row m))"
proof -
  have g: "\<And>k. trim (getCol row k) = getCol row k"
    by (simp add: getCol_def)
  show ?thesis
    using g by (auto simp: formatHighlightData_def Let_def whitespaceOnly_def orElse_def trim_placeholder)
qed

text \<open>The badge list has three entries: a win/draw/lose field \<open>nil\<close> is shown as it is.\<close>

lemma resultBadge_nil_shown:
  "resultBadge (buildCardFromHighlight id (badmintonFinal\<lparr>winDrawLose := ''nil''\<rparr>) 1) = ''nil''"
  by code_simp

subsection \<open>Sorting with a comparator\<close>












subsection \<open>Sorting and renumbering the cards\<close>













lemma length_renumberFrom: "length (renumberFrom i cs) = length cs"
  by (induction cs arbitrary: i) auto









subsection \<open>The pagination loop\<close>

lemma concat_chunkLoop:
  "0 < n \<Longrightarrow> concat (chunkLoop cards n i slides) = concat slides @ drop i cards"
proof (induction cards n i slides rule: chunkLoop.induct)
  case (1 cards chunkSize i slides)
  show ?case
  proof (cases "i < length cards")
    case True
    have "take chunkSize (drop i cards) @ drop (i + chunkSize) cards = drop i cards"
      by (metis add.commute append_take_drop_id drop_drop)
    with 1 True show ?thesis
      by (subst chunkLoop.simps) (simp add: slice_def)
  next
    case False
    then show ?thesis
      by (subst chunkLoop.simps) simp
  qed
qed

lemma chunkLoop_bounded:
  "0 < n \<Longrightarrow> \<forall>s \<in> set slides. length s \<le> n \<Longrightarrow>
     \<forall>s \<in> set (chunkLoop cards n i slides). length s \<le> n"
proof (induction cards n i slides rule: chunkLoop.induct)
  case (1 cards chunkSize i slides)
  show ?case
  proof (cases "i < length cards")
    case True
    with 1 show ?thesis
      by (subst chunkLoop.simps) (simp add: slice_def)
  next
    case False
    with 1 show ?thesis
      by (subst chunkLoop.simps) simp
  qed
qed

lemma chunkLoop_nonempty:
  "chunkLoop cards n i slides = [] \<Longrightarrow> slides = []"
proof (induction cards n i slides rule: chunkLoop.induct)
  case (1 cards chunkSize i slides)
  then show ?case
    by (subst (asm) (2) chunkLoop.simps) (auto split: if_splits)
qed

lemma chunkCards_concat: "concat (chunkCards cards 9) = cards"
proof -
  have "concat (chunkLoop cards 9 0 []) = cards"
    using concat_chunkLoop [of 9 cards 0 "[]"] by simp
  then show ?thesis
    by (auto simp: chunkCards_def Let_def)
qed

lemma chunkCards_bounded: "\<forall>s \<in> set (chunkCards cards 9). length s \<le> 9"
  using chunkLoop_bounded [of 9 "[]" cards 0]
  by (auto simp: chunkCards_def Let_def)

lemma chunkCards_empty: "chunkCards [] 9 = [[]]"
  by (simp add: chunkCards_def chunkLoop.simps)

lemma chunkCards_19:
  assumes "length cards = 19"
  shows "map length (chunkCards cards 9) = [9, 9, 1]"
proof -
  have "chunkLoop cards 9 0 [] =
          [slice cards 0 9, slice cards 9 18, slice cards 18 27]"
    using assms
    by (simp add: chunkLoop.simps [of cards 9 0] chunkLoop.simps [of cards 9 9]
        chunkLoop.simps [of cards 9 18] chunkLoop.simps [of cards 9 27])
  then show ?thesis
    using assms by (simp add: chunkCards_def slice_def)
qed

section \<open>Claims\<close>

text \<open>
  Claim C1. \<open>isH2HSport\<close> decides by precedence on the trimmed, upper-cased sport and
  discipline: head-to-head if the exact pair is a key of the mapping, otherwise if the
  wildcard key of the sport is present, otherwise if the discipline is empty and the
  key with the empty discipline is present, otherwise individual. When the rules table
  has a row with sport "Judo", an empty discipline and the flag "yes", the mapping loaded
  from it classifies both ("Judo", "Team") and ("Judo", "Kata") as head-to-head.
\<close>

theorem isH2HSport_precedence:
  "isH2HSport sportName disciplineName (Some m) = classifyByPrecedence sportName disciplineName m
   \<and> (findIndex (headerIs ''SPORTS'') headers = Some si
      \<longrightarrow> findIndex (headerIs ''H2H'') headers = Some hi
      \<longrightarrow> row \<in> set dataRows
      \<longrightarrow> cell row si = ''Judo''
      \<longrightarrow> toLowerCase (trim (cell row hi)) = ''yes''
      \<longrightarrow> (case findIndex (headerIs ''DISCIPLINES'') headers of
             Some d \<Rightarrow> trim (cell row d) | None \<Rightarrow> []) = []
      \<longrightarrow> isH2HSport ''Judo'' ''Team''
            (Some (fst (loadH2HSportsMapping None (Some (headers # dataRows)))))
          \<and> isH2HSport ''Judo'' ''Kata''
            (Some (fst (loadH2HSportsMapping None (Some (headers # dataRows))))))"
proof -
  have p: "isH2HSport sportName disciplineName (Some m) = classifyByPrecedence sportName disciplineName m"
    by (auto simp: isH2HSport_def classifyByPrecedence_def Let_def)
  have u: "toUpperCase (trim ''Judo'') = ''JUDO''"
    by code_simp
  have j: "''JUDO'' \<in> set (splitList (trim ''Judo''))"
    by code_simp
  have l: "fst (loadH2HSportsMapping None (Some (headers # dataRows)))
             = buildH2HCombinations (headers # dataRows)"
    by (simp add: loadH2HSportsMapping_def Let_def)
  show ?thesis
    using p u j build_wildcard [of headers si hi row dataRows "''JUDO''"]
      wildcard_h2h [of "''Judo''" "buildH2HCombinations (headers # dataRows)"]
    by (simp add: l)
qed

theorem isH2HSport_precedence_witness:
  "findIndex (headerIs ''SPORTS'') [''Sports'', ''Disciplines'', ''H2H''] = Some 0
   \<and> findIndex (headerIs ''H2H'') [''Sports'', ''Disciplines'', ''H2H''] = Some 2
   \<and> [''Judo'', '''', ''yes''] \<in> set [[''Fencing'', ''Epee'', ''yes''], [''Judo'', '''', ''yes'']]
   \<and> cell [''Judo'', '''', ''yes''] 0 = ''Judo''
   \<and> toLowerCase (trim (cell [''Judo'', '''', ''yes''] 2)) = ''yes''
   \<and> (case findIndex (headerIs ''DISCIPLINES'') [''Sports'', ''Disciplines'', ''H2H''] of
         Some d \<Rightarrow> trim (cell [''Judo'', '''', ''yes''] d) | None \<Rightarrow> []) = []
   \<and> isH2HSport ''Judo'' ''Team''
        (Some (fst (loadH2HSportsMapping None
           (Some ([''Sports'', ''Disciplines'', ''H2H'']
                  # [[''Fencing'', ''Epee'', ''yes''], [''Judo'', '''', ''yes'']])))))
   \<and> isH2HSport ''Judo'' ''Kata''
        (Some (fst (loadH2HSportsMapping None
           (Some ([''Sports'', ''Disciplines'', ''H2H'']
                  # [[''Fencing'', ''Epee'', ''yes''], [''Judo'', '''', ''yes'']])))))
   \<and> isH2HSport ''Fencing'' ''Epee'' (Some {''FENCING|EPEE'', ''JUDO|*''})
       = classifyByPrecedence ''Fencing'' ''Epee'' {''FENCING|EPEE'', ''JUDO|*''}"
proof -
  have a: "findIndex (headerIs ''SPORTS'') [''Sports'', ''Disciplines'', ''H2H''] = Some 0"
    by code_simp
  have b: "findIndex (headerIs ''H2H'') [''Sports'', ''Disciplines'', ''H2H''] = Some 2"
    by code_simp
  have c: "[''Judo'', '''', ''yes''] \<in> set [[''Fencing'', ''Epee'', ''yes''], [''Judo'', '''', ''yes'']]"
    by simp
  have d: "cell [''Judo'', '''', ''yes''] 0 = ''Judo''"
    by (simp add: cell_def)
  have e: "toLowerCase (trim (cell [''Judo'', '''', ''yes''] 2)) = ''yes''"
    by code_simp
  have f: "(case findIndex (headerIs ''DISCIPLINES'') [''Sports'', ''Disciplines'', ''H2H''] of
         Some d \<Rightarrow> trim (cell [''Judo'', '''', ''yes''] d) | None \<Rightarrow> []) = []"
    by code_simp
  show ?thesis
    using a b c d e f
      isH2HSport_precedence [of "''Fencing''" "''Epee''" "{''FENCING|EPEE'', ''JUDO|*''}"
        "[''Sports'', ''Disciplines'', ''H2H'']" 0 2 "[''Judo'', '''', ''yes'']"
        "[[''Fencing'', ''Epee'', ''yes''], [''Judo'', '''', ''yes'']]"]
    by simp
qed



text \<open>
  Claim C3, as amended. \<open>formatTiming\<close> strips the leading zero-valued units of the
  trimmed elapsed-time string: of three segments it drops the hour segment if zero and
  then the minute segment if also zero, of two segments it drops the minute segment if
  zero, and a single segment passes through unchanged. The seconds segment is put out
  as it came in; the first hour or minute segment that is kept is put out as the decimal
  numeral of its value, without leading zeros, so that the output of an input of at most
  three segments never begins with a zero-valued unit. Segment values are below \<open>2 ^ 53\<close>.
  How the minute segment after a non-zero hour is put out is left open.
\<close>

theorem formatTiming_leading_units:
  assumes "\<forall>p \<in> set (splitOn isColon (trim timingStr)). \<bar>orZero (parseInt10 p)\<bar> < 2 ^ 53"
  shows "(splitOn isColon (trim timingStr) = [s] \<longrightarrow> formatTiming timingStr = s)
    \<and> (splitOn isColon (trim timingStr) = [m, s] \<longrightarrow>
         formatTiming timingStr =
           (if isZeroUnit m then s else numberToString (orZero (parseInt10 m)) @ '':'' @ s))
    \<and> (splitOn isColon (trim timingStr) = [h, m, s] \<longrightarrow> isZeroUnit h \<longrightarrow>
         formatTiming timingStr =
           (if isZeroUnit m then s else numberToString (orZero (parseInt10 m)) @ '':'' @ s))
    \<and> (splitOn isColon (trim timingStr) = [h, m, s] \<longrightarrow> \<not> isZeroUnit h \<longrightarrow>
         (\<exists>mid. formatTiming timingStr =
            numberToString (orZero (parseInt10 h)) @ '':'' @ mid @ '':'' @ s))
    \<and> (length (splitOn isColon (trim timingStr)) \<le> 3 \<longrightarrow>
         1 < length (splitOn isColon (formatTiming timingStr)) \<longrightarrow>
         \<not> isZeroUnit (hd (splitOn isColon (formatTiming timingStr))))"
  using formatTiming_one [of timingStr s] formatTiming_two [of timingStr m s]
    formatTiming_three_zero_hours [of timingStr h m s]
    formatTiming_three_hours [of timingStr h m s]
    formatTiming_no_leading_zero [of timingStr]
  by blast

theorem formatTiming_leading_units_witness:
  "splitOn isColon (trim ''00:01:10.28'') = [''00'', ''01'', ''10.28'']
   \<and> \<bar>orZero (parseInt10 ''00'')\<bar> < 2 ^ 53 \<and> \<bar>orZero (parseInt10 ''01'')\<bar> < 2 ^ 53
   \<and> \<bar>orZero (parseInt10 ''10.28'')\<bar> < 2 ^ 53
   \<and> isZeroUnit ''00'' \<and> \<not> isZeroUnit ''01''
   \<and> formatTiming ''00:01:10.28'' = ''1:10.28''
   \<and> length (splitOn isColon (trim ''00:01:10.28'')) \<le> 3
   \<and> 1 < length (splitOn isColon (formatTiming ''00:01:10.28''))
   \<and> \<not> isZeroUnit (hd (splitOn isColon (formatTiming ''00:01:10.28'')))"
proof -
  have sp: "splitOn isColon (trim ''00:01:10.28'') = [''00'', ''01'', ''10.28'']"
    by code_simp
  have z: "isZeroUnit ''00''" "\<not> isZeroUnit ''01''" "orZero (parseInt10 ''00'') = 0"
    "orZero (parseInt10 ''01'') = 1" "orZero (parseInt10 ''10.28'') = 10"
    by code_simp+
  have b: "\<forall>p \<in> set (splitOn isColon (trim ''00:01:10.28'')). \<bar>orZero (parseInt10 p)\<bar> < 2 ^ 53"
    by (simp add: sp z)
  have r: "numberToString 1 = ''1''"
    by code_simp
  have f: "formatTiming ''00:01:10.28'' = ''1:10.28''"
    using formatTiming_leading_units [OF b, where h = "''00''" and m = "''01''" and s = "''10.28''"] sp z r
    by simp
  have l: "1 < length (splitOn isColon ''1:10.28'')"
    by code_simp
  have n: "\<not> isZeroUnit (hd (splitOn isColon (formatTiming ''00:01:10.28'')))"
    using formatTiming_leading_units [OF b, where h = "''00''" and m = "''01''" and s = "''10.28''"] sp l f
    by simp
  from b sp z f l n show ?thesis by simp
qed

text \<open>
  Claim C3 as stated says that segments which are not stripped appear in the output as
  they appeared in the input. At \<open>01:00.10\<close> the minute segment \<open>01\<close> is not zero and is
  not stripped, and the output is \<open>1:00.10\<close>.
\<close>

theorem formatTiming_reformats_counterexample:
  "formatTiming ''01:00.10'' = ''1:00.10'' \<and> stripLeadingZeroUnits ''01:00.10'' = ''01:00.10''
   \<and> formatTiming ''01:00.10'' \<noteq> stripLeadingZeroUnits ''01:00.10''"
  by code_simp

text \<open>
  Claim C4. For every elapsed-time string of the three-part form \<open>00:00:ss.ms\<close>, where the
  last part has no colon and no trailing white space, \<open>formatTiming\<close> returns exactly the
  last part.
\<close>

theorem formatTiming_zero_hours_minutes:
  "CHR '':'' \<notin> set s \<Longrightarrow> trimEnd s = s \<Longrightarrow> formatTiming (''00:00:'' @ s) = s"
  using formatTiming_zero_prefix [of s] by simp

theorem formatTiming_zero_hours_minutes_witness:
  "CHR '':'' \<notin> set ''12.40'' \<and> trimEnd ''12.40'' = ''12.40''
   \<and> formatTiming (''00:00:'' @ ''12.40'') = ''12.40''
   \<and> formatTiming ''00:00:12.40'' = ''12.40''"
proof -
  have a: "CHR '':'' \<notin> set ''12.40''" by simp
  have b: "trimEnd ''12.40'' = ''12.40''" by code_simp
  show ?thesis
    using a b formatTiming_zero_hours_minutes [OF a b] by simp
qed




text \<open>
  Claim C6. \<open>chunkCards cards 9\<close> splits the ordered card list into contiguous chunks of at
  most 9 cards and preserves the order: the concatenation of the slides is the input
  list. An empty input gives exactly one slide with no cards, and an input of 19 cards
  gives exactly three slides of sizes 9, 9 and 1.
\<close>

theorem chunkCards_paginates:
  "concat (chunkCards cards 9) = cards
   \<and> (\<forall>s \<in> set (chunkCards cards 9). length s \<le> 9)
   \<and> chunkCards ([] :: 'a list) 9 = [[]]
   \<and> (length cards = 19 \<longrightarrow> map length (chunkCards cards 9) = [9, 9, 1])"
  using chunkCards_concat [of cards] chunkCards_bounded [of cards]
    chunkCards_empty chunkCards_19 [of cards]
  by blast

theorem chunkCards_paginates_witness:
  "length [1 :: nat, 2, 3, 4, 5, 6, 7, 8, 9, 10, 11, 12, 13, 14, 15, 16, 17, 18, 19] = 19
   \<and> chunkCards [1 :: nat, 2, 3, 4, 5, 6, 7, 8, 9, 10, 11, 12, 13, 14, 15, 16, 17, 18, 19] 9
       = [[1, 2, 3, 4, 5, 6, 7, 8, 9], [10, 11, 12, 13, 14, 15, 16, 17, 18], [19]]
   \<and> concat (chunkCards [1 :: nat, 2, 3, 4, 5, 6, 7, 8, 9, 10, 11, 12, 13, 14, 15, 16, 17, 18, 19] 9)
       = [1, 2, 3, 4, 5, 6, 7, 8, 9, 10, 11, 12, 13, 14, 15, 16, 17, 18, 19]
   \<and> map length (chunkCards [1 :: nat, 2, 3, 4, 5, 6, 7, 8, 9, 10, 11, 12, 13, 14, 15, 16, 17, 18, 19] 9)
       = [9, 9, 1]"
proof -
  have e: "chunkCards [1 :: nat, 2, 3, 4, 5, 6, 7, 8, 9, 10, 11, 12, 13, 14, 15, 16, 17, 18, 19] 9
       = [[1, 2, 3, 4, 5, 6, 7, 8, 9], [10, 11, 12, 13, 14, 15, 16, 17, 18], [19]]"
    by (simp add: chunkCards_def chunkLoop.simps slice_def)
  show ?thesis
    using chunkCards_paginates
      [of "[1 :: nat, 2, 3, 4, 5, 6, 7, 8, 9, 10, 11, 12, 13, 14, 15, 16, 17, 18, 19]"] e
    by simp
qed

text \<open>
  Claim C7. \<open>normalizeDate\<close> is to accept ISO strings, slash- or dash-delimited day-first
  or year-first forms and \<^verbatim>\<open>Date\<close> values and to return that date as YYYY-MM-DD. The
  code does so for the ISO string and for the day-first forms. For a year-first form
  that is not the ISO string it reads the first part as the day: the third part, here
  10, is no year above 2000, and the other branch builds the date from year 10, month
  2025 and day 12. The test \<^verbatim>\<open>parts[0].length === 4\<close> that would tell the year-first
  form stands under the wrong condition and both of its branches are the same.
\<close>

theorem normalizeDate_year_first:
  "normalizeDate (DateString ''2025/12/10'') = Returned ''2078-09-12''
   \<and> normalizeDate (DateString ''10/12/2025'') = Returned ''2025-12-10''
   \<and> normalizeDate (DateString ''10-12-2025'') = Returned ''2025-12-10''
   \<and> normalizeDate (DateString ''2025-12-10'') = Returned ''2025-12-10''
   \<and> normalizeDate (DateObject (LocalDate 2025 11 10)) = Returned ''2025-12-10''"
  by code_simp

text \<open>
  Claim C8, as amended. In \<open>buildCardFromHighlight\<close> the result badge is the medal label
  when the trimmed win/draw/lose field is empty; it is the trimmed win/draw/lose field
  when that is not empty and, in lower case, none of "na", "n/a", "none", "no medal",
  "nil"; and it is the empty string when the trimmed win/draw/lose field is, in lower
  case, one of "na", "n/a", "none": the code does not fall back to the medal label
  then. The badge is never one of "na", "n/a", "none".
\<close>

theorem resultBadge_rule:
  "(trim (winDrawLose h) = [] \<longrightarrow>
      resultBadge (buildCardFromHighlight g h idx) = medalLabel (buildCardFromHighlight g h idx))
   \<and> (trim (winDrawLose h) \<noteq> [] \<longrightarrow> toLowerCase (trim (winDrawLose h)) \<notin> set nullMarkers \<longrightarrow>
      resultBadge (buildCardFromHighlight g h idx) = trim (winDrawLose h))
   \<and> (toLowerCase (trim (winDrawLose h)) \<in> set [''na'', ''n/a'', ''none''] \<longrightarrow>
      resultBadge (buildCardFromHighlight g h idx) = [])
   \<and> toLowerCase (resultBadge (buildCardFromHighlight g h idx)) \<notin> set [''na'', ''n/a'', ''none'']
   \<and> medalLabel (buildCardFromHighlight g h idx) = fst (normalizeMedal (medals h))"
proof -
  let ?w = "trim (winDrawLose h)"
  let ?l = "fst (normalizeMedal (medals h))"
  have e: "toLowerCase [] \<notin> set [''na'', ''n/a'', ''none'']"
    by (simp add: toLowerCase_def)
  have l: "?l = [] \<or> toLowerCase ?l \<notin> set [''na'', ''n/a'', ''none'']"
    using normalizeMedal_label [of "medals h"] short_markers by blast
  have a: "?w = [] \<Longrightarrow> resultBadge (buildCardFromHighlight g h idx) = ?l"
    using l by (auto simp: build_resultBadge Let_def orElse_def)
  have b: "?w \<noteq> [] \<Longrightarrow> toLowerCase ?w \<notin> set nullMarkers \<Longrightarrow>
      resultBadge (buildCardFromHighlight g h idx) = ?w"
    using short_markers by (auto simp: build_resultBadge Let_def orElse_def)
  have c: "toLowerCase ?w \<in> set [''na'', ''n/a'', ''none''] \<Longrightarrow>
      resultBadge (buildCardFromHighlight g h idx) = []"
    using e by (auto simp: build_resultBadge Let_def orElse_def)
  have d: "toLowerCase (resultBadge (buildCardFromHighlight g h idx)) \<notin> set [''na'', ''n/a'', ''none'']"
    using e by (auto simp: build_resultBadge Let_def)
  show ?thesis
    using a b c d by (simp add: build_medalLabel)
qed

theorem resultBadge_rule_witness:
  "trim (winDrawLose badmintonFinal) \<noteq> []
   \<and> toLowerCase (trim (winDrawLose badmintonFinal)) \<notin> set nullMarkers
   \<and> resultBadge (buildCardFromHighlight id badmintonFinal 1) = ''Win''
   \<and> trim (winDrawLose swimmingFinal) = []
   \<and> resultBadge (buildCardFromHighlight id swimmingFinal 1) = ''Gold''
   \<and> medalLabel (buildCardFromHighlight id swimmingFinal 1) = ''Gold''"
proof -
  have a: "trim (winDrawLose badmintonFinal) = ''Win''"
    by code_simp
  have b: "toLowerCase ''Win'' \<notin> set nullMarkers"
    by code_simp
  have c: "trim (winDrawLose swimmingFinal) = []"
    by code_simp
  have d: "fst (normalizeMedal (medals swimmingFinal)) = ''Gold''"
    by code_simp
  have "resultBadge (buildCardFromHighlight id badmintonFinal 1) = ''Win''"
    using resultBadge_rule [of "badmintonFinal" id 1] a b by simp
  moreover have "resultBadge (buildCardFromHighlight id swimmingFinal 1) = ''Gold''
      \<and> medalLabel (buildCardFromHighlight id swimmingFinal 1) = ''Gold''"
    using resultBadge_rule [of "swimmingFinal" id 1] c d by simp
  ultimately show ?thesis
    using a b c by simp
qed

text \<open>
  Claim C8 as stated gives the medal label whenever the win/draw/lose field is a
  null-marker. For a gold record whose win/draw/lose field is \<open>na\<close> the badge is empty and
  the medal label is \<open>Gold\<close>.
\<close>

theorem resultBadge_null_marker_counterexample:
  "toLowerCase (trim (winDrawLose (badmintonFinal\<lparr>winDrawLose := ''na''\<rparr>))) \<in> set nullMarkers
   \<and> medalLabel (buildCardFromHighlight id (badmintonFinal\<lparr>winDrawLose := ''na''\<rparr>) 1) = ''Gold''
   \<and> resultBadge (buildCardFromHighlight id (badmintonFinal\<lparr>winDrawLose := ''na''\<rparr>) 1) = []
   \<and> resultBadge (buildCardFromHighlight id (badmintonFinal\<lparr>winDrawLose := ''na''\<rparr>) 1)
       \<noteq> medalLabel (buildCardFromHighlight id (badmintonFinal\<lparr>winDrawLose := ''na''\<rparr>) 1)"
  by code_simp




text \<open>
  Claim C10, as amended. For every record whose sport, sportTeamsg, athleteName and
  countrySgp fields do not consist of white space only (as in every record that
  \<open>formatHighlightData\<close> builds), the card has a non-empty sport label, primary athlete
  name and primary country: an empty sport (with an empty sportTeamsg) becomes
  "Sport Name", an empty athlete name "Athlete Name", an empty primary country "SGP", and
  a head-to-head opponent with a country and no name is named "Opponent".
\<close>

theorem card_placeholders:
  assumes "\<not> whitespaceOnly (sport h)" and "\<not> whitespaceOnly (sportTeamsg h)"
    and "\<not> whitespaceOnly (athleteName h)" and "\<not> whitespaceOnly (countrySgp h)"
  shows "sport_card (buildCardFromHighlight g h idx) \<noteq> []
    \<and> name (hd (competitors (buildCardFromHighlight g h idx))) \<noteq> []
    \<and> country (hd (competitors (buildCardFromHighlight g h idx))) \<noteq> []
    \<and> (sport h = [] \<longrightarrow> sportTeamsg h = [] \<longrightarrow>
          sport_card (buildCardFromHighlight g h idx) = ''Sport Name'')
    \<and> (athleteName h = [] \<longrightarrow>
          name (hd (competitors (buildCardFromHighlight g h idx))) = ''Athlete Name'')
    \<and> (countrySgp h = [] \<longrightarrow>
          country (hd (competitors (buildCardFromHighlight g h idx))) = ''SGP'')
    \<and> (type h = ''h2h'' \<longrightarrow> trim (competitorCountry h) \<noteq> [] \<longrightarrow> trim (competitorName h) = [] \<longrightarrow>
          map name (tl (competitors (buildCardFromHighlight g h idx))) = [''Opponent''])"
proof -
  have s: "trim (orElse (sport h) ''Sport Name'') \<noteq> []"
    using assms(1) by (simp add: orElse_not_blank trim_placeholder)
  have "trim (trim (orElse (sport h) ''Sport Name'')) \<noteq> []"
    using s by simp
  then have t: "sport_card (buildCardFromHighlight g h idx) \<noteq> []"
    using assms(2) by (simp add: build_sport_card orElse_not_blank)
  have n: "name (hd (competitors (buildCardFromHighlight g h idx))) \<noteq> []"
    using assms(3) build_competitors_hd [of g h idx] by (simp add: orElse_not_blank trim_placeholder)
  have c: "country (hd (competitors (buildCardFromHighlight g h idx))) \<noteq> []"
    using assms(4) build_competitors_hd [of g h idx] by (simp add: orElse_not_blank trim_placeholder)
  have p1: "sport h = [] \<Longrightarrow> sportTeamsg h = [] \<Longrightarrow>
          sport_card (buildCardFromHighlight g h idx) = ''Sport Name''"
    by (simp add: build_sport_card orElse_def trim_placeholder)
  have p2: "athleteName h = [] \<Longrightarrow>
          name (hd (competitors (buildCardFromHighlight g h idx))) = ''Athlete Name''"
    using build_competitors_hd [of g h idx] by (simp add: orElse_def trim_placeholder)
  have p3: "countrySgp h = [] \<Longrightarrow>
          country (hd (competitors (buildCardFromHighlight g h idx))) = ''SGP''"
    using build_competitors_hd [of g h idx] by (simp add: orElse_def trim_placeholder)
  have p4: "type h = ''h2h'' \<Longrightarrow> trim (competitorCountry h) \<noteq> [] \<Longrightarrow> trim (competitorName h) = [] \<Longrightarrow>
          map name (tl (competitors (buildCardFromHighlight g h idx))) = [''Opponent'']"
    by (simp add: build_competitors_tl orElse_def)
  from t n c p1 p2 p3 p4 show ?thesis by blast
qed

theorem card_placeholders_witness:
  "\<not> whitespaceOnly (sport unnamedFinal) \<and> \<not> whitespaceOnly (sportTeamsg unnamedFinal)
   \<and> \<not> whitespaceOnly (athleteName unnamedFinal) \<and> \<not> whitespaceOnly (countrySgp unnamedFinal)
   \<and> sport unnamedFinal = [] \<and> sportTeamsg unnamedFinal = [] \<and> athleteName unnamedFinal = []
   \<and> countrySgp unnamedFinal = [] \<and> type unnamedFinal = ''h2h''
   \<and> trim (competitorCountry unnamedFinal) \<noteq> [] \<and> trim (competitorName unnamedFinal) = []
   \<and> sport_card (buildCardFromHighlight id unnamedFinal 1) = ''Sport Name''
   \<and> map name (competitors (buildCardFromHighlight id unnamedFinal 1)) = [''Athlete Name'', ''Opponent'']
   \<and> map country (competitors (buildCardFromHighlight id unnamedFinal 1)) = [''SGP'', ''MAS'']"
proof -
  have w: "\<not> whitespaceOnly (sport unnamedFinal)" "\<not> whitespaceOnly (sportTeamsg unnamedFinal)"
    "\<not> whitespaceOnly (athleteName unnamedFinal)" "\<not> whitespaceOnly (countrySgp unnamedFinal)"
    by (simp_all add: whitespaceOnly_def unnamedFinal_def)
  have f: "sport unnamedFinal = []" "sportTeamsg unnamedFinal = []" "athleteName unnamedFinal = []"
    "countrySgp unnamedFinal = []" "type unnamedFinal = ''h2h''"
    by (simp_all add: unnamedFinal_def badmintonFinal_def)
  have o: "trim (competitorCountry unnamedFinal) \<noteq> []" "trim (competitorName unnamedFinal) = []"
    by code_simp+
  have s: "sport_card (buildCardFromHighlight id unnamedFinal 1) = ''Sport Name''"
    using card_placeholders [OF w, of id 1] f by simp
  have n: "map name (competitors (buildCardFromHighlight id unnamedFinal 1)) = [''Athlete Name'', ''Opponent'']"
    by code_simp
  have c: "map country (competitors (buildCardFromHighlight id unnamedFinal 1)) = [''SGP'', ''MAS'']"
    by code_simp
  from w f o s n c show ?thesis by simp
qed

text \<open>
  Claim C10 as stated speaks of every input record. The placeholder is chosen before the
  field is trimmed: a record whose sport is a single space gets the empty sport label.
\<close>

theorem card_blank_sport_counterexample:
  "sport_card (buildCardFromHighlight id (swimmingFinal\<lparr>sport := '' '', sportTeamsg := []\<rparr>) 1) = []"
  by code_simp

end
